theory Spec2Isabelle
  imports
    Complex_Main
    "HOL-Library.Word"
    "HOL-Library.Multiset"
    "HOL-Library.Char_ord"
    "HOL-Library.List_Lexorder"
    "HOL-Library.Product_Lexorder"
begin

section \<open>Values of the source language\<close>

text \<open>
  A string of the source is a sequence of UTF-16 code units. \<open>js\<close> writes an ASCII
  literal of the source as such a sequence. The empty string is the only falsy string.
\<close>

type_synonym jsstring = "16 word list"

definition js :: "string \<Rightarrow> jsstring" where
  "js s = map of_char s"

definition truthy :: "jsstring \<Rightarrow> bool" where
  "truthy s \<longleftrightarrow> s \<noteq> []"

text \<open>\<open>a && b\<close> and \<open>a || b\<close> on strings: the first operand decides which one is the value.\<close>

definition js_and :: "jsstring \<Rightarrow> jsstring \<Rightarrow> jsstring" where
  "js_and a b = (if truthy a then b else a)"

definition js_or :: "jsstring \<Rightarrow> jsstring \<Rightarrow> jsstring" where
  "js_or a b = (if truthy a then a else b)"

text \<open>
  \<open>String.prototype.trim\<close> strips white space and line terminators from both ends:
  TAB, LF, VT, FF, CR, SPACE, NBSP, the space separators U+1680, U+2000 to U+200A, U+202F,
  U+205F and U+3000, the separators U+2028 and U+2029, and the byte order mark U+FEFF.
\<close>

definition is_white_space :: "16 word \<Rightarrow> bool" where
  "is_white_space c \<longleftrightarrow>
     c \<in> {0x0009, 0x000A, 0x000B, 0x000C, 0x000D, 0x0020, 0x00A0, 0x1680,
          0x2028, 0x2029, 0x202F, 0x205F, 0x3000, 0xFEFF}
     \<or> (0x2000 \<le> c \<and> c \<le> 0x200A)"

definition trim :: "jsstring \<Rightarrow> jsstring" where
  "trim s = rev (dropWhile is_white_space (rev (dropWhile is_white_space s)))"

text \<open>An optional, nullable field (\<open>field?: T | null\<close>).\<close>

datatype 'a optional = Undefined | Null | Val 'a

text \<open>
  What a call can throw: \<open>Error m\<close> is \<open>new Error(m)\<close> made by this code;
  \<open>PlatformError m\<close> is an instance of an Error subclass raised by the platform (the
  TypeError of a failed fetch, the SyntaxError of an unparseable body); \<open>NonError\<close> is
  any thrown value that is not an instance of Error.
\<close>

datatype thrown = Error jsstring | PlatformError jsstring | NonError

fun instanceof_Error :: "thrown \<Rightarrow> bool" where
  "instanceof_Error (Error m) = True"
| "instanceof_Error (PlatformError m) = True"
| "instanceof_Error NonError = False"

fun message :: "thrown \<Rightarrow> jsstring" where
  "message (Error m) = m"
| "message (PlatformError m) = m"
| "message NonError = []"

section \<open>The interface types (lib/types.ts)\<close>

text \<open>
  Field names carry a short prefix of their interface, since several interfaces share
  a field name (\<open>document_id\<close>, \<open>title\<close>, \<open>download_url\<close>). Identities are integers.
\<close>

record UploadResponse =
  up_document_id :: int
  up_title :: jsstring
  up_filename :: jsstring

datatype TaskType = Short_summary | Long_summary | Research_summary | Math_proof | Prompt_draft

record GenerateRequest =
  greq_document_id :: int
  greq_task_type :: TaskType
  greq_output_format :: "jsstring optional"
  greq_extra_instructions :: "jsstring optional"

record GenerateResponse =
  gres_job_id :: int
  gres_download_url :: jsstring
  gres_result_preview :: jsstring

record RelatedArticle =
  art_field :: jsstring
  art_title :: jsstring
  art_link :: jsstring
  art_authors_info :: jsstring
  art_publication_year :: "jsstring option"
  art_snippet :: "jsstring option"

record RelatedArticlesResponse =
  rel_query :: jsstring
  rel_articles :: "RelatedArticle list"

record TagIn =
  tag_name :: jsstring
  tag_value :: jsstring

record PromptBuilderRequest =
  pbreq_tags :: "TagIn list"
  pbreq_pattern_names :: "jsstring list"

record PromptBuilderResponse =
  pbres_prompt_text :: jsstring
  pbres_score :: real
  pbres_accepted :: bool
  pbres_download_url :: "jsstring option"

section \<open>The HTTP client (lib/api.ts)\<close>

text \<open>
  A request as \<open>fetch\<close> receives it, with the body before serialisation, and a response
  as the code reads it: its \<open>ok\<close> flag and what \<open>res.text()\<close> and \<open>res.json()\<close> settle
  to. \<open>fetch\<close> itself is a parameter: it rejects (\<open>Inl\<close>) or yields a response. Every
  client function returns the requests it issued together with its outcome.
\<close>

record 'b request =
  req_url :: jsstring
  req_method :: jsstring
  req_content_type :: "jsstring option"
  req_body :: "'b option"

record 'a response =
  res_ok :: bool
  res_text :: "thrown + jsstring"
  res_json :: "thrown + 'a"

type_synonym ('b, 'a) fetch = "'b request \<Rightarrow> thrown + 'a response"

type_synonym ('b, 'a) call = "'b request list \<times> (thrown + 'a)"

text \<open>An uploaded \<open>File\<close>, known by its name only.\<close>

datatype file_object = File jsstring

definition apiGenerate ::
  "jsstring \<Rightarrow> (GenerateRequest, GenerateResponse) fetch \<Rightarrow> GenerateRequest
     \<Rightarrow> (GenerateRequest, GenerateResponse) call" where
  "apiGenerate API_BASE fetch body =
     (let req = \<lparr>req_url = API_BASE @ js ''/api/generate'', req_method = js ''POST'',
                 req_content_type = Some (js ''application/json''), req_body = Some body\<rparr>
      in case fetch req of
           Inl e \<Rightarrow> ([req], Inl e)
         | Inr res \<Rightarrow>
             if \<not> res_ok res then ([req], Inl (Error (js ''Generation failed'')))
             else ([req], res_json res))"

definition apiPromptBuilder ::
  "jsstring \<Rightarrow> (PromptBuilderRequest, PromptBuilderResponse) fetch \<Rightarrow> PromptBuilderRequest
     \<Rightarrow> (PromptBuilderRequest, PromptBuilderResponse) call" where
  "apiPromptBuilder API_BASE fetch body =
     (let req = \<lparr>req_url = API_BASE @ js ''/api/prompt-builder'', req_method = js ''POST'',
                 req_content_type = Some (js ''application/json''), req_body = Some body\<rparr>
      in case fetch req of
           Inl e \<Rightarrow> ([req], Inl e)
         | Inr res \<Rightarrow>
             if \<not> res_ok res then
               (let msg = (case res_text res of
                             Inl e \<Rightarrow> js ''Prompt builder failed''
                           | Inr t \<Rightarrow> t)
                in ([req], Inl (Error (js_or msg (js ''Prompt builder failed'')))))
             else ([req], res_json res))"

definition apiUpload ::
  "jsstring \<Rightarrow> (file_object, UploadResponse) fetch \<Rightarrow> file_object
     \<Rightarrow> (file_object, UploadResponse) call" where
  "apiUpload API_BASE fetch f =
     (let req = \<lparr>req_url = API_BASE @ js ''/api/upload'', req_method = js ''POST'',
                 req_content_type = None, req_body = Some f\<rparr>
      in case fetch req of
           Inl e \<Rightarrow> ([req], Inl e)
         | Inr res \<Rightarrow>
             if \<not> res_ok res then ([req], Inl (Error (js ''Upload failed'')))
             else ([req], res_json res))"

text \<open>
  \<open>apiRelated\<close> builds its URL with \<open>encodeURIComponent\<close>, which throws on a lone
  surrogate; the encoder is a parameter, and its failure precedes any request.
\<close>

definition apiRelated ::
  "(jsstring \<Rightarrow> thrown + jsstring) \<Rightarrow> (unit, RelatedArticlesResponse) fetch \<Rightarrow> jsstring
     \<Rightarrow> (unit, RelatedArticlesResponse) call" where
  "apiRelated encodeURIComponent fetch query =
     (case encodeURIComponent query of
        Inl e \<Rightarrow> ([], Inl e)
      | Inr q \<Rightarrow>
          (let req = \<lparr>req_url = js ''/api/related?query='' @ q, req_method = js ''GET'',
                      req_content_type = None, req_body = None\<rparr>
           in case fetch req of
                Inl e \<Rightarrow> ([req], Inl e)
              | Inr res \<Rightarrow>
                  if \<not> res_ok res then ([req], Inl (Error (js ''Related articles fetch failed'')))
                  else ([req], res_json res)))"

text \<open>
  The rendering of a job identity inside a template literal. Identities are integers of
  magnitude below 10^21, which are printed in decimal digits; a number beyond that, or
  one with a fraction, is printed in another form and is outside this embedding.
\<close>

function decimal :: "nat \<Rightarrow> jsstring" where
  "decimal n = (if n < 10 then [of_nat (48 + n)]
                else decimal (n div 10) @ [of_nat (48 + n mod 10)])"
  by pat_completeness auto
termination
  by (relation "measure id") auto

definition number_to_string :: "int \<Rightarrow> jsstring" where
  "number_to_string i = (if i < 0 then js ''-'' @ decimal (nat (- i)) else decimal (nat i))"

definition apiDownloadJob :: "int \<Rightarrow> jsstring" where
  "apiDownloadJob job_id = js ''/api/jobs/'' @ number_to_string job_id @ js ''/download''"

definition apiJobAudio :: "int \<Rightarrow> jsstring" where
  "apiJobAudio job_id = js ''/api/jobs/'' @ number_to_string job_id @ js ''/audio''"

section \<open>The landing helpers (lib/landingHelpers.ts)\<close>

datatype MathProofFormat = Pdf | Tex

fun format_string :: "MathProofFormat \<Rightarrow> jsstring" where
  "format_string Pdf = js ''pdf''"
| "format_string Tex = js ''tex''"

definition generateForDocument ::
  "jsstring \<Rightarrow> (GenerateRequest, GenerateResponse) fetch \<Rightarrow> int \<Rightarrow> TaskType
     \<Rightarrow> MathProofFormat option \<Rightarrow> (GenerateRequest, GenerateResponse) call" where
  "generateForDocument API_BASE fetch documentId task outputFormat =
     apiGenerate API_BASE fetch
       \<lparr>greq_document_id = documentId,
        greq_task_type = task,
        greq_output_format =
          (if task = Math_proof
           then Val (case outputFormat of None \<Rightarrow> js ''pdf'' | Some f \<Rightarrow> format_string f)
           else Undefined),
        greq_extra_instructions = Undefined\<rparr>"

definition uploadDocument ::
  "jsstring \<Rightarrow> (file_object, UploadResponse) fetch \<Rightarrow> file_object
     \<Rightarrow> (file_object, UploadResponse) call" where
  "uploadDocument API_BASE fetch f = apiUpload API_BASE fetch f"

definition fetchRelatedArticles ::
  "(jsstring \<Rightarrow> thrown + jsstring) \<Rightarrow> (unit, RelatedArticlesResponse) fetch \<Rightarrow> jsstring
     \<Rightarrow> (unit, RelatedArticlesResponse) call" where
  "fetchRelatedArticles encodeURIComponent fetch query = apiRelated encodeURIComponent fetch query"

section \<open>The landing page (routes/+page.svelte)\<close>

text \<open>
  The component's variables, with the alerts it has raised and the errors it has logged to
  the console. A handler receives the helpers it imports as the outcomes they settle to.
  \<open>loadRelated\<close> is started without being awaited; it writes only \<open>related\<close>,
  \<open>relatedLoading\<close> and the console, which its caller does not touch afterwards, so the
  state once both have settled is the one computed here.
\<close>

text \<open>The variable \<open>file\<close> is written \<open>file'\<close>.\<close>

record landing_page =
  file' :: "file_object option"
  uploadedDoc :: "UploadResponse option"
  outputFormat :: MathProofFormat
  selectedTask :: TaskType
  isGenerating_landing :: bool
  generationResult :: "GenerateResponse option"
  resultText :: jsstring
  audioUrl :: "jsstring option"
  downloadUrl :: "jsstring option"
  documentId :: "int option"
  documentTitle :: jsstring
  fileName :: jsstring
  related :: "RelatedArticlesResponse option"
  relatedLoading :: bool
  alerts :: "jsstring list"
  console_errors :: "(jsstring \<times> thrown) list"

definition loadRelated ::
  "(jsstring \<Rightarrow> thrown + RelatedArticlesResponse) \<Rightarrow> jsstring \<Rightarrow> landing_page \<Rightarrow> landing_page" where
  "loadRelated fetchRelated query s =
     (let s1 = s\<lparr>relatedLoading := True\<rparr>
      in case fetchRelated query of
           Inr r \<Rightarrow> s1\<lparr>related := Some r, relatedLoading := False\<rparr>
         | Inl err \<Rightarrow>
             s1\<lparr>console_errors := console_errors s1 @ [(js ''Related fetch failed:'', err)],
                relatedLoading := False\<rparr>)"

definition upload ::
  "(file_object \<Rightarrow> thrown + UploadResponse) \<Rightarrow> (jsstring \<Rightarrow> thrown + RelatedArticlesResponse)
     \<Rightarrow> landing_page \<Rightarrow> landing_page" where
  "upload uploadDoc fetchRelated s =
     (case file' s of
        None \<Rightarrow> s\<lparr>alerts := alerts s @ [js ''Choose a file first'']\<rparr>
      | Some f \<Rightarrow>
          (case uploadDoc f of
             Inr res \<Rightarrow>
               (let s1 = s\<lparr>uploadedDoc := Some res,
                            documentId := Some (up_document_id res),
                            documentTitle := up_title res,
                            fileName := up_filename res,
                            generationResult := None,
                            resultText := [],
                            audioUrl := None,
                            downloadUrl := None\<rparr>
                in if truthy (documentTitle s1)
                   then loadRelated fetchRelated (documentTitle s1) s1
                   else s1)
           | Inl err \<Rightarrow>
               s\<lparr>console_errors := console_errors s @ [(js ''Upload failed:'', err)],
                 alerts := alerts s @ [js ''Upload failed'']\<rparr>))"

text \<open>\<open>!documentId\<close> holds for \<open>null\<close> and for the number 0.\<close>

definition handleGenerate_landing ::
  "(int \<Rightarrow> TaskType \<Rightarrow> MathProofFormat option \<Rightarrow> thrown + GenerateResponse)
     \<Rightarrow> (jsstring \<Rightarrow> thrown + RelatedArticlesResponse) \<Rightarrow> landing_page \<Rightarrow> landing_page" where
  "handleGenerate_landing generateForDoc fetchRelated s =
     (case documentId s of
        None \<Rightarrow> s\<lparr>alerts := alerts s @ [js ''Upload a document first.'']\<rparr>
      | Some d \<Rightarrow>
          if d = 0 then s\<lparr>alerts := alerts s @ [js ''Upload a document first.'']\<rparr>
          else
            (let s1 = s\<lparr>isGenerating_landing := True, resultText := [],
                         audioUrl := None, downloadUrl := None\<rparr>;
                 s2 = (case generateForDoc d (selectedTask s1)
                              (if selectedTask s1 = Math_proof then Some (outputFormat s1)
                               else None) of
                         Inr res \<Rightarrow>
                           (let s' = s1\<lparr>generationResult := Some res,
                                        resultText := gres_result_preview res,
                                        downloadUrl := Some (apiDownloadJob (gres_job_id res))\<rparr>
                            in if truthy (documentTitle s')
                               then loadRelated fetchRelated (documentTitle s') s'
                               else s')
                       | Inl err \<Rightarrow>
                           s1\<lparr>console_errors :=
                                console_errors s1 @ [(js ''Failed to generate:'', err)],
                              resultText := js ''Something went wrong.''\<rparr>)
             in s2\<lparr>isGenerating_landing := False\<rparr>))"

text \<open>
  The related-articles panel lists \<open>related.articles\<close> when \<open>related\<close> is set and shows
  a placeholder, and no article, when it is not.
\<close>

definition shown_articles :: "landing_page \<Rightarrow> RelatedArticle list" where
  "shown_articles s = (case related s of None \<Rightarrow> [] | Some r \<Rightarrow> rel_articles r)"

section \<open>The prompt builder page (routes/prompt/+page.svelte)\<close>

record prompt_page =
  tags :: "TagIn list"
  selectedPatternNames :: "jsstring list"
  isGenerating :: bool
  errorMessage :: "jsstring option"
  result :: "PromptBuilderResponse option"
  promptText :: jsstring

definition isPatternSelected :: "prompt_page \<Rightarrow> jsstring \<Rightarrow> bool" where
  "isPatternSelected s name \<longleftrightarrow> name \<in> set (selectedPatternNames s)"

definition togglePattern :: "jsstring \<Rightarrow> prompt_page \<Rightarrow> prompt_page" where
  "togglePattern name s =
     s\<lparr>selectedPatternNames :=
         (if isPatternSelected s name
          then filter (\<lambda>n. n \<noteq> name) (selectedPatternNames s)
          else selectedPatternNames s @ [name])\<rparr>"

text \<open>
  The tags of the payload: every row trimmed, then the rows kept whose
  \<open>t.name && t.value\<close> is truthy.
\<close>

definition cleanedTags :: "TagIn list \<Rightarrow> TagIn list" where
  "cleanedTags ts =
     filter (\<lambda>t. truthy (js_and (tag_name t) (tag_value t)))
       (map (\<lambda>t. \<lparr>tag_name = trim (tag_name t), tag_value = trim (tag_value t)\<rparr>) ts)"

text \<open>
  \<open>handleGenerate\<close> returns the page's new state and the payloads it passed to
  \<open>apiPromptBuilder\<close>; the first argument is what \<open>apiPromptBuilder\<close> settles to.
\<close>

definition handleGenerate ::
  "(PromptBuilderRequest \<Rightarrow> thrown + PromptBuilderResponse) \<Rightarrow> prompt_page
     \<Rightarrow> prompt_page \<times> PromptBuilderRequest list" where
  "handleGenerate api s =
     (let s0 = s\<lparr>errorMessage := None, result := None, promptText := []\<rparr>;
          cleaned = cleanedTags (tags s0)
      in if length cleaned = 0
         then (s0\<lparr>errorMessage :=
                    Some (js ''Please provide at least one tag with a name and value.'')\<rparr>, [])
         else if length (selectedPatternNames s0) = 0
         then (s0\<lparr>errorMessage := Some (js ''Please select at least one prompt pattern.'')\<rparr>, [])
         else
           (let payload = \<lparr>pbreq_tags = cleaned, pbreq_pattern_names = selectedPatternNames s0\<rparr>;
                s1 = s0\<lparr>isGenerating := True\<rparr>
            in case api payload of
                 Inr res \<Rightarrow>
                   (s1\<lparr>result := Some res, promptText := pbres_prompt_text res,
                       isGenerating := False\<rparr>, [payload])
               | Inl err \<Rightarrow>
                   (s1\<lparr>errorMessage :=
                          Some (if instanceof_Error err then message err
                                else js ''Prompt generation failed.''),
                       isGenerating := False\<rparr>, [payload])))"

section \<open>The Prompt Composer\<close>

text \<open>
  Modelled from the spec: the Pattern Registry and the Prompt Composer (sections 3, 4.1
  and 4.2) are not among the repository's files. A template is its text cut at the slot
  markers: literal text and slots, in order. Strings of the core are byte strings.
\<close>

datatype piece = Literal string | Slot string

record PromptPattern =
  pattern_name :: string
  category :: string
  slot_names :: "string list"
  template :: "piece list"

type_synonym tag = "string \<times> string"

datatype compose_error = UnknownPatternError string | MissingTagError string

text \<open>
  Modelled from the spec: \<open>get(name)\<close> of the registry, and rule 1: every pattern name
  must resolve, the first that does not fails with \<open>UnknownPatternError\<close>.
\<close>

definition get_pattern :: "PromptPattern list \<Rightarrow> string \<Rightarrow> PromptPattern option" where
  "get_pattern registry name = find (\<lambda>p. pattern_name p = name) registry"

fun resolve :: "PromptPattern list \<Rightarrow> string list \<Rightarrow> compose_error + PromptPattern list" where
  "resolve registry [] = Inr []"
| "resolve registry (n # ns) =
     (case get_pattern registry n of
        None \<Rightarrow> Inl (UnknownPatternError n)
      | Some p \<Rightarrow>
          (case resolve registry ns of
             Inl e \<Rightarrow> Inl e
           | Inr ps \<Rightarrow> Inr (p # ps)))"

text \<open>
  Modelled from the spec: rule 2, every slot a selected pattern requires must have a tag
  of that name, else \<open>MissingTagError(slot)\<close>; and rule 3, a slot marker is replaced by
  the tag's value, which is inserted as it is and not substituted again. A marker with
  no tag fails like a missing slot.
\<close>

fun first_missing :: "(string \<rightharpoonup> string) \<Rightarrow> string list \<Rightarrow> string option" where
  "first_missing m [] = None"
| "first_missing m (s # ss) = (if m s = None then Some s else first_missing m ss)"

fun substitute :: "(string \<rightharpoonup> string) \<Rightarrow> piece list \<Rightarrow> compose_error + string" where
  "substitute m [] = Inr []"
| "substitute m (Literal t # ps) =
     (case substitute m ps of Inl e \<Rightarrow> Inl e | Inr rest \<Rightarrow> Inr (t @ rest))"
| "substitute m (Slot s # ps) =
     (case m s of
        None \<Rightarrow> Inl (MissingTagError s)
      | Some v \<Rightarrow> (case substitute m ps of Inl e \<Rightarrow> Inl e | Inr rest \<Rightarrow> Inr (v @ rest)))"

definition render :: "(string \<rightharpoonup> string) \<Rightarrow> PromptPattern \<Rightarrow> compose_error + string" where
  "render m p =
     (case first_missing m (slot_names p) of
        Some s \<Rightarrow> Inl (MissingTagError s)
      | None \<Rightarrow> substitute m (template p))"

fun render_all :: "(string \<rightharpoonup> string) \<Rightarrow> PromptPattern list \<Rightarrow> compose_error + string list" where
  "render_all m [] = Inr []"
| "render_all m (p # ps) =
     (case render m p of
        Inl e \<Rightarrow> Inl e
      | Inr seg \<Rightarrow> (case render_all m ps of Inl e \<Rightarrow> Inl e | Inr segs \<Rightarrow> Inr (seg # segs)))"

text \<open>Modelled from the spec: rule 3, the segments are joined with a fixed separator.\<close>

fun join :: "string \<Rightarrow> string list \<Rightarrow> string" where
  "join sep [] = []"
| "join sep [x] = x"
| "join sep (x # y # ys) = x @ sep @ join sep (y # ys)"

text \<open>
  Modelled from the spec: a ComposedPrompt, and \<open>compose\<close> with rule 5: the fingerprint
  is a hash, given as a parameter, of the sorted pattern names and the sorted
  (name, value) pairs. The tags arrive as a list, in the caller's order; tags no pattern
  uses do not reach the text (rule 4).
\<close>

record 'h ComposedPrompt =
  cp_text :: string
  cp_patterns :: "string list"
  cp_tags :: "tag list"
  cp_fingerprint :: 'h

text \<open>
  Modelled from the spec: \<open>compose(patterns, tags)\<close> of the Prompt Composer, which is not
  among the repository's files: resolve every name, render every pattern in the caller's
  order with the tags as a lookup table, join, and fingerprint.
\<close>

definition compose ::
  "PromptPattern list \<Rightarrow> string \<Rightarrow> (string list \<times> tag list \<Rightarrow> 'h) \<Rightarrow> string list \<Rightarrow> tag list
     \<Rightarrow> compose_error + 'h ComposedPrompt" where
  "compose registry separator hash patterns ts =
     (case resolve registry patterns of
        Inl e \<Rightarrow> Inl e
      | Inr ps \<Rightarrow>
          (case render_all (map_of ts) ps of
             Inl e \<Rightarrow> Inl e
           | Inr segments \<Rightarrow>
               Inr \<lparr>cp_text = join separator segments,
                    cp_patterns = patterns,
                    cp_tags = sort ts,
                    cp_fingerprint = hash (sort patterns, sort ts)\<rparr>))"

section \<open>The Model Router\<close>

text \<open>
  Modelled from the spec: the Model Router (section 4.4) is not among the repository's
  files. The external generation capability is a parameter; it is told how many calls
  were made before, so that its answer may change from call to call. Waiting between
  retries is not modelled.
\<close>

datatype cost_tier = Low_cost | High_capacity

record ModelProfile =
  provider :: string
  tier :: cost_tier
  temperature :: real
  max_output_size :: nat
  timeout :: nat

datatype GenerationError = Transient | Permanent

record GenerationOutput =
  raw_text :: string
  model_used :: string
  size_estimate :: nat

record router_config =
  retry_bound :: nat
  primary_profile :: "TaskType \<Rightarrow> ModelProfile"
  secondary_profile :: "TaskType \<Rightarrow> ModelProfile option"
  escalation_profile :: "TaskType \<Rightarrow> ModelProfile option"

type_synonym capability = "nat \<Rightarrow> ModelProfile \<Rightarrow> string \<Rightarrow> GenerationError + string"

text \<open>
  Modelled from the spec: steps 1 to 3 on one profile: call it; on a transient failure
  call it again while retries are left; stop at once on a permanent failure or a success.
  The calls made are appended to the log.
\<close>

fun attempt ::
  "capability \<Rightarrow> ModelProfile \<Rightarrow> string \<Rightarrow> nat \<Rightarrow> ModelProfile list
     \<Rightarrow> ModelProfile list \<times> (GenerationError + string)" where
  "attempt generate p payload 0 calls = (calls @ [p], generate (length calls) p payload)"
| "attempt generate p payload (Suc retries) calls =
     (case generate (length calls) p payload of
        Inl Transient \<Rightarrow> attempt generate p payload retries (calls @ [p])
      | Inl Permanent \<Rightarrow> (calls @ [p], Inl Permanent)
      | Inr out \<Rightarrow> (calls @ [p], Inr out))"

definition output_of :: "ModelProfile \<Rightarrow> string \<Rightarrow> GenerationOutput" where
  "output_of p out = \<lparr>raw_text = out, model_used = provider p, size_estimate = length out\<rparr>"

text \<open>
  Modelled from the spec: after the retries on the primary profile are exhausted, fail
  over once, to the secondary profile if one is configured, else to the higher tier if
  the task permits escalation (\<open>escalation_profile\<close> is set for it). The profile failed
  over to is executed like the primary.
\<close>

definition failover_target :: "router_config \<Rightarrow> TaskType \<Rightarrow> ModelProfile option" where
  "failover_target cfg taskType =
     (case secondary_profile cfg taskType of
        Some q \<Rightarrow> Some q
      | None \<Rightarrow> escalation_profile cfg taskType)"

text \<open>
  Modelled from the spec: \<open>dispatch(taskType, payload, costPolicy)\<close> of the Model Router,
  which is not among the repository's files; the cost policy is the configuration. It
  returns the log of the calls made to the external capability with the outcome.
\<close>

definition dispatch ::
  "router_config \<Rightarrow> capability \<Rightarrow> TaskType \<Rightarrow> string
     \<Rightarrow> ModelProfile list \<times> (GenerationError + GenerationOutput)" where
  "dispatch cfg generate taskType payload =
     (let p = primary_profile cfg taskType;
          (calls, r) = attempt generate p payload (retry_bound cfg) []
      in case r of
           Inr out \<Rightarrow> (calls, Inr (output_of p out))
         | Inl Permanent \<Rightarrow> (calls, Inl Permanent)
         | Inl Transient \<Rightarrow>
             (case failover_target cfg taskType of
                None \<Rightarrow> (calls, Inl Transient)
              | Some q \<Rightarrow>
                  (let (calls', r') = attempt generate q payload (retry_bound cfg) calls
                   in case r' of
                        Inr out \<Rightarrow> (calls', Inr (output_of q out))
                      | Inl e \<Rightarrow> (calls', Inl e))))"

section \<open>The Job Lifecycle Manager\<close>

text \<open>
  Modelled from the spec: the Job Lifecycle Manager (sections 3 and 4.5) is not among the
  repository's files. A job moves \<open>Created\<close>, \<open>Queued\<close>, \<open>Running\<close>, then
  \<open>Completed\<close> or \<open>Failed\<close>; a cache hit completes a queued job at once. An event
  that does not apply in the job's state is refused and leaves the job as it is.
\<close>

datatype job_state = Created | Queued | Running | Completed | Failed

datatype error_classification =
  UnknownPattern | MissingTag | ScorerGate | GenerationTransient | GenerationPermanent

record artifacts =
  preview_text :: string
  download_reference :: string
  audio_reference :: "string option"

record 'h Job =
  job_identity :: nat
  document_reference :: "nat option"
  job_task :: TaskType
  job_state :: job_state
  job_artifacts :: "artifacts option"
  job_error :: "(error_classification \<times> string) option"
  job_fingerprint :: 'h
  created_at :: nat
  started_at :: "nat option"
  completed_at :: "nat option"

datatype event =
  Enqueue
  | Cache_hit artifacts nat
  | Cache_miss nat
  | Succeeded artifacts nat
  | Errored error_classification string nat

text \<open>
  Modelled from the spec: the transitions of the Job Lifecycle Manager, which is not among
  the repository's files. The spec names no state for a cancelled job, so cancellation
  is not an event here.
\<close>

fun transition :: "'h Job \<Rightarrow> event \<Rightarrow> 'h Job option" where
  "transition j Enqueue =
     (if job_state j = Created then Some (j\<lparr>job_state := Queued\<rparr>) else None)"
| "transition j (Cache_hit a t) =
     (if job_state j = Queued
      then Some (j\<lparr>job_state := Completed, job_artifacts := Some a, completed_at := Some t\<rparr>)
      else None)"
| "transition j (Cache_miss t) =
     (if job_state j = Queued
      then Some (j\<lparr>job_state := Running, started_at := Some t\<rparr>)
      else None)"
| "transition j (Succeeded a t) =
     (if job_state j = Running
      then Some (j\<lparr>job_state := Completed, job_artifacts := Some a, completed_at := Some t\<rparr>)
      else None)"
| "transition j (Errored c msg t) =
     (if job_state j = Running
      then Some (j\<lparr>job_state := Failed, job_error := Some (c, msg), completed_at := Some t\<rparr>)
      else None)"

text \<open>Modelled from the spec: the manager applying the events of a job, one after the other.\<close>

definition deliver :: "'h Job \<Rightarrow> event \<Rightarrow> 'h Job" where
  "deliver j e = (case transition j e of None \<Rightarrow> j | Some j' \<Rightarrow> j')"

definition lifecycle :: "'h Job \<Rightarrow> event list \<Rightarrow> 'h Job" where
  "lifecycle j es = foldl deliver j es"

text \<open>Modelled from the spec: \<open>Completed\<close> and \<open>Failed\<close> are the terminal states.\<close>

definition terminal :: "'h Job \<Rightarrow> bool" where
  "terminal j \<longleftrightarrow> job_state j = Completed \<or> job_state j = Failed"

section \<open>The Result Cache\<close>








section \<open>Sample inputs\<close>

text \<open>
  Concrete servers, pages and payloads at which the theorems below are evaluated. A
  server is given by the response it returns to every request.
\<close>

definition server_answers :: "'a response \<Rightarrow> ('b, 'a) fetch" where
  "server_answers res req = Inr res"

text \<open>\<open>encodeURIComponent\<close> on a query of unreserved characters, which it leaves as they are.\<close>

definition encode_unreserved :: "jsstring \<Rightarrow> thrown + jsstring" where
  "encode_unreserved q = Inr q"

text \<open>A network on which every \<open>fetch\<close> rejects.\<close>

definition network_down :: "('b, 'a) fetch" where
  "network_down req = Inl (PlatformError (js ''Failed to fetch''))"

definition sample_payload :: PromptBuilderRequest where
  "sample_payload =
     \<lparr>pbreq_tags = [\<lparr>tag_name = js ''topic'', tag_value = js ''graph theory''\<rparr>],
      pbreq_pattern_names = [js ''Template Pattern'']\<rparr>"

definition unparseable_ok :: "PromptBuilderResponse response" where
  "unparseable_ok =
     \<lparr>res_ok = True, res_text = Inr (js ''<html>''),
      res_json = Inl (PlatformError (js ''Unexpected token <''))\<rparr>"

definition error_page :: "PromptBuilderResponse response" where
  "error_page =
     \<lparr>res_ok = False, res_text = Inr (js ''Unknown pattern: Foo''),
      res_json = Inl (PlatformError (js ''Unexpected token U''))\<rparr>"

definition empty_error_page :: "PromptBuilderResponse response" where
  "empty_error_page =
     \<lparr>res_ok = False, res_text = Inr [],
      res_json = Inl (PlatformError (js ''Unexpected end of JSON input''))\<rparr>"

definition unreadable_error_page :: "PromptBuilderResponse response" where
  "unreadable_error_page =
     \<lparr>res_ok = False, res_text = Inl (PlatformError (js ''body stream already read'')),
      res_json = Inl (PlatformError (js ''body stream already read''))\<rparr>"

definition sample_prompt :: PromptBuilderResponse where
  "sample_prompt =
     \<lparr>pbres_prompt_text = js ''Explain graph theory.'', pbres_score = 1 / 2,
      pbres_accepted = False, pbres_download_url = None\<rparr>"

definition prompt_ok :: "PromptBuilderResponse response" where
  "prompt_ok = \<lparr>res_ok = True, res_text = Inr (js ''{}''), res_json = Inr sample_prompt\<rparr>"

definition related_unavailable :: "RelatedArticlesResponse response" where
  "related_unavailable =
     \<lparr>res_ok = False, res_text = Inr (js ''Service Unavailable''),
      res_json = Inl (PlatformError (js ''Unexpected token S''))\<rparr>"

definition related_search_down :: "jsstring \<Rightarrow> thrown + RelatedArticlesResponse" where
  "related_search_down q =
     snd (fetchRelatedArticles encode_unreserved (server_answers related_unavailable) q)"

definition sample_article :: RelatedArticle where
  "sample_article =
     \<lparr>art_field = js ''math'', art_title = js ''Graph minors'',
      art_link = js ''https://example.org/1'', art_authors_info = js ''Robertson, Seymour'',
      art_publication_year = Some (js ''1983''), art_snippet = None\<rparr>"

definition related_search_up :: "jsstring \<Rightarrow> thrown + RelatedArticlesResponse" where
  "related_search_up q = Inr \<lparr>rel_query = q, rel_articles = [sample_article]\<rparr>"

definition upload_succeeds :: "file_object \<Rightarrow> thrown + UploadResponse" where
  "upload_succeeds f =
     Inr \<lparr>up_document_id = 7, up_title = js ''Graphs'', up_filename = js ''graphs.pdf''\<rparr>"

definition generate_succeeds ::
  "int \<Rightarrow> TaskType \<Rightarrow> MathProofFormat option \<Rightarrow> thrown + GenerateResponse" where
  "generate_succeeds d t f =
     Inr \<lparr>gres_job_id = 12, gres_download_url = js ''/files/12.docx'',
          gres_result_preview = js ''A summary.''\<rparr>"

text \<open>The landing page as it starts, with a file chosen.\<close>

definition initial_page :: landing_page where
  "initial_page =
     \<lparr>file' = Some (File (js ''graphs.pdf'')), uploadedDoc = None, outputFormat = Pdf,
      selectedTask = Short_summary, isGenerating_landing = False, generationResult = None,
      resultText = [], audioUrl = None, downloadUrl = None, documentId = None,
      documentTitle = [], fileName = [], related = None, relatedLoading = False,
      alerts = [], console_errors = []\<rparr>"

text \<open>The prompt builder page with two tag rows filled in and one pattern selected.\<close>

definition filled_prompt_page :: prompt_page where
  "filled_prompt_page =
     \<lparr>tags = [\<lparr>tag_name = js '' topic '', tag_value = js ''graph theory''\<rparr>,
              \<lparr>tag_name = js ''audience'', tag_value = js ''  ''\<rparr>],
      selectedPatternNames = [js ''ReAct''], isGenerating = False, errorMessage = None,
      result = None, promptText = []\<rparr>"

definition prompt_api_up :: "PromptBuilderRequest \<Rightarrow> thrown + PromptBuilderResponse" where
  "prompt_api_up p = Inr sample_prompt"

definition sample_registry :: "PromptPattern list" where
  "sample_registry =
     [\<lparr>pattern_name = ''Template Pattern'', category = ''output'', slot_names = [''topic''],
       template = [Literal ''Write about '', Slot ''topic'', Literal ''.'']\<rparr>,
      \<lparr>pattern_name = ''Fact Check List'', category = ''verification'',
       slot_names = [''topic'', ''audience''],
       template = [Literal ''List the facts on '', Slot ''topic'', Literal '' for '', Slot ''audience'']\<rparr>]"

text \<open>A fingerprint that keeps what it is given: no two inputs collide.\<close>

definition identity_hash :: "string list \<times> tag list \<Rightarrow> string list \<times> tag list" where
  "identity_hash x = x"

definition deep_profile :: ModelProfile where
  "deep_profile =
     \<lparr>provider = ''deepseek'', tier = High_capacity, temperature = 1 / 5,
      max_output_size = 4096, timeout = 60\<rparr>"

definition deep_backup_profile :: ModelProfile where
  "deep_backup_profile =
     \<lparr>provider = ''deepseek-backup'', tier = High_capacity, temperature = 1 / 5,
      max_output_size = 4096, timeout = 60\<rparr>"

definition sample_router :: router_config where
  "sample_router =
     \<lparr>retry_bound = 2,
      primary_profile = (\<lambda>t. deep_profile),
      secondary_profile = (\<lambda>t. Some deep_backup_profile),
      escalation_profile = (\<lambda>t. None)\<rparr>"

text \<open>A provider whose primary profile always times out and whose backup answers.\<close>

definition primary_times_out :: capability where
  "primary_times_out i p payload = (if p = deep_profile then Inl Transient else Inr ''A long summary.'')"

definition sample_job :: "nat Job" where
  "sample_job =
     \<lparr>job_identity = 1, document_reference = Some 7, job_task = Long_summary,
      job_state = Created, job_artifacts = None, job_error = None, job_fingerprint = 99,
      created_at = 0, started_at = None, completed_at = None\<rparr>"

definition sample_artifacts :: artifacts where
  "sample_artifacts =
     \<lparr>preview_text = ''A long summary.'', download_reference = ''/files/1.docx'',
      audio_reference = None\<rparr>"

section \<open>Properties of the landing helpers\<close>

lemma apiGenerate_sent:
  "fst (apiGenerate API_BASE fetch body) =
     [\<lparr>req_url = API_BASE @ js ''/api/generate'', req_method = js ''POST'',
       req_content_type = Some (js ''application/json''), req_body = Some body\<rparr>]"
  by (simp add: apiGenerate_def Let_def split: sum.split)

text \<open>
  C9. Every call \<open>generateForDocument(documentId, task, outputFormat)\<close> sends exactly one
  request to the generate endpoint. Its \<open>output_format\<close> is the given format, \<open>"pdf"\<close>
  when the argument is omitted, exactly when the task is \<open>math_proof\<close>, and is undefined
  for every other task.
\<close>

theorem generateForDocument_output_format:
  "\<exists>req body.
     fst (generateForDocument API_BASE fetch doc task fmt) = [req]
     \<and> req_url req = API_BASE @ js ''/api/generate''
     \<and> req_body req = Some body
     \<and> greq_document_id body = doc
     \<and> greq_task_type body = task
     \<and> greq_output_format body =
         (if task = Math_proof
          then Val (case fmt of None \<Rightarrow> js ''pdf'' | Some f \<Rightarrow> format_string f)
          else Undefined)
     \<and> ((greq_output_format body \<noteq> Undefined) = (task = Math_proof))"
  by (simp add: generateForDocument_def apiGenerate_sent)

section \<open>Properties of the HTTP client\<close>

lemma apiPromptBuilder_sent:
  "fst (apiPromptBuilder API_BASE fetch body) =
     [\<lparr>req_url = API_BASE @ js ''/api/prompt-builder'', req_method = js ''POST'',
       req_content_type = Some (js ''application/json''), req_body = Some body\<rparr>]"
  by (simp add: apiPromptBuilder_def Let_def split: sum.split)

lemma apiPromptBuilder_result:
  "snd (apiPromptBuilder API_BASE fetch body) =
     (case fetch \<lparr>req_url = API_BASE @ js ''/api/prompt-builder'', req_method = js ''POST'',
                   req_content_type = Some (js ''application/json''), req_body = Some body\<rparr> of
        Inl e \<Rightarrow> Inl e
      | Inr res \<Rightarrow>
          if res_ok res then res_json res
          else Inl (Error (case res_text res of
                             Inl e \<Rightarrow> js ''Prompt builder failed''
                           | Inr t \<Rightarrow> if t = [] then js ''Prompt builder failed'' else t)))"
  by (simp add: apiPromptBuilder_def Let_def js_or_def truthy_def split: sum.split)

text \<open>
  C8, as amended. Every submission sends exactly one request to the prompt-builder
  endpoint, whatever happens to it: nothing is retried. The parsed response is returned
  exactly when \<open>fetch\<close> yields a response that is ok and whose body parses. In every
  other case the call throws, once: the rejection of \<open>res.json()\<close> when the response is
  ok and its body does not parse; an \<open>Error\<close> whose message is the response's body text,
  or \<open>"Prompt builder failed"\<close> when that text is empty or cannot be read, when the
  response is not ok; and the rejection of \<open>fetch\<close> when no response arrives.
\<close>

theorem apiPromptBuilder_outcome:
  "fst (apiPromptBuilder API_BASE fetch body) =
     [\<lparr>req_url = API_BASE @ js ''/api/prompt-builder'', req_method = js ''POST'',
       req_content_type = Some (js ''application/json''), req_body = Some body\<rparr>]
   \<and> snd (apiPromptBuilder API_BASE fetch body) =
       (case fetch \<lparr>req_url = API_BASE @ js ''/api/prompt-builder'', req_method = js ''POST'',
                     req_content_type = Some (js ''application/json''), req_body = Some body\<rparr> of
          Inl e \<Rightarrow> Inl e
        | Inr res \<Rightarrow>
            if res_ok res then res_json res
            else Inl (Error (case res_text res of
                               Inl e \<Rightarrow> js ''Prompt builder failed''
                             | Inr t \<Rightarrow> if t = [] then js ''Prompt builder failed'' else t)))
   \<and> (\<forall>r. snd (apiPromptBuilder API_BASE fetch body) = Inr r \<longleftrightarrow>
          (\<exists>res. fetch \<lparr>req_url = API_BASE @ js ''/api/prompt-builder'', req_method = js ''POST'',
                         req_content_type = Some (js ''application/json''), req_body = Some body\<rparr>
                   = Inr res
                 \<and> res_ok res \<and> res_json res = Inr r))"
proof (intro conjI allI)
  show "fst (apiPromptBuilder API_BASE fetch body) =
     [\<lparr>req_url = API_BASE @ js ''/api/prompt-builder'', req_method = js ''POST'',
       req_content_type = Some (js ''application/json''), req_body = Some body\<rparr>]"
    by (rule apiPromptBuilder_sent)
  show "snd (apiPromptBuilder API_BASE fetch body) =
       (case fetch \<lparr>req_url = API_BASE @ js ''/api/prompt-builder'', req_method = js ''POST'',
                     req_content_type = Some (js ''application/json''), req_body = Some body\<rparr> of
          Inl e \<Rightarrow> Inl e
        | Inr res \<Rightarrow>
            if res_ok res then res_json res
            else Inl (Error (case res_text res of
                               Inl e \<Rightarrow> js ''Prompt builder failed''
                             | Inr t \<Rightarrow> if t = [] then js ''Prompt builder failed'' else t)))"
    by (rule apiPromptBuilder_result)
  fix r
  show "snd (apiPromptBuilder API_BASE fetch body) = Inr r \<longleftrightarrow>
          (\<exists>res. fetch \<lparr>req_url = API_BASE @ js ''/api/prompt-builder'', req_method = js ''POST'',
                         req_content_type = Some (js ''application/json''), req_body = Some body\<rparr>
                   = Inr res
                 \<and> res_ok res \<and> res_json res = Inr r)"
    unfolding apiPromptBuilder_result by (auto split: sum.splits if_splits)
qed

text \<open>
  C8 as stated fails at two inputs. The server answers 200 with a body that is not JSON:
  the response is ok, and yet no parsed response is returned, the call throws the
  parser's error. And the network is down: no response is ok, and what is thrown is the
  rejection of \<open>fetch\<close>, whose message is neither a body text nor the fallback text.
\<close>

theorem apiPromptBuilder_ok_unparseable:
  "res_ok unparseable_ok
   \<and> snd (apiPromptBuilder (js ''http://localhost:8000'') (server_answers unparseable_ok) sample_payload)
       = Inl (PlatformError (js ''Unexpected token <''))
   \<and> snd (apiPromptBuilder (js ''http://localhost:8000'') network_down sample_payload)
       = Inl (PlatformError (js ''Failed to fetch''))"
  by (simp add: apiPromptBuilder_def unparseable_ok_def server_answers_def network_down_def Let_def)

text \<open>
  The amended C8 at five inputs: an error status with a body, with an empty body, with
  an unreadable body, a success, and a network that is down.
\<close>

theorem apiPromptBuilder_outcome_witness:
  "snd (apiPromptBuilder (js ''http://localhost:8000'') (server_answers error_page) sample_payload)
     = Inl (Error (js ''Unknown pattern: Foo''))
   \<and> snd (apiPromptBuilder (js ''http://localhost:8000'') (server_answers empty_error_page) sample_payload)
     = Inl (Error (js ''Prompt builder failed''))
   \<and> snd (apiPromptBuilder (js ''http://localhost:8000'') (server_answers unreadable_error_page) sample_payload)
     = Inl (Error (js ''Prompt builder failed''))
   \<and> snd (apiPromptBuilder (js ''http://localhost:8000'') (server_answers prompt_ok) sample_payload)
     = Inr sample_prompt
   \<and> snd (apiPromptBuilder (js ''http://localhost:8000'') network_down sample_payload)
     = Inl (PlatformError (js ''Failed to fetch''))
   \<and> length (fst (apiPromptBuilder (js ''http://localhost:8000'') network_down sample_payload)) = 1"
  using
    apiPromptBuilder_outcome [of "js ''http://localhost:8000''" "server_answers error_page" sample_payload]
    apiPromptBuilder_outcome [of "js ''http://localhost:8000''" "server_answers empty_error_page" sample_payload]
    apiPromptBuilder_outcome [of "js ''http://localhost:8000''" "server_answers unreadable_error_page" sample_payload]
    apiPromptBuilder_outcome [of "js ''http://localhost:8000''" "server_answers prompt_ok" sample_payload]
    apiPromptBuilder_outcome [of "js ''http://localhost:8000''" network_down sample_payload]
  by (simp add: server_answers_def error_page_def empty_error_page_def unreadable_error_page_def
      prompt_ok_def network_down_def js_def)

section \<open>Properties of the landing page\<close>

lemma loadRelated_failure:
  "fetchRelated q = Inl e \<Longrightarrow>
   loadRelated fetchRelated q s =
     s\<lparr>console_errors := console_errors s @ [(js ''Related fetch failed:'', e)],
       relatedLoading := False\<rparr>"
  by (simp add: loadRelated_def Let_def)

lemma loadRelated_erase:
  "(loadRelated fetchRelated q s)\<lparr>related := r, relatedLoading := l, console_errors := c\<rparr>
     = s\<lparr>related := r, relatedLoading := l, console_errors := c\<rparr>"
  by (simp add: loadRelated_def Let_def split: sum.split)

lemma upload_erase:
  "(upload uploadDoc fetchRelated s)\<lparr>related := r, relatedLoading := l, console_errors := c\<rparr>
     = (upload uploadDoc other s)\<lparr>related := r, relatedLoading := l, console_errors := c\<rparr>"
  by (simp add: upload_def Let_def loadRelated_erase split: option.split sum.split)

lemma handleGenerate_landing_erase:
  "(handleGenerate_landing gen fetchRelated s)\<lparr>related := r, relatedLoading := l, console_errors := c\<rparr>
     = (handleGenerate_landing gen other s)\<lparr>related := r, relatedLoading := l, console_errors := c\<rparr>"
proof (cases "documentId s = None \<or> documentId s = Some 0")
  case True
  then show ?thesis by (auto simp: handleGenerate_landing_def)
next
  case False
  then obtain d where d: "documentId s = Some d" "d \<noteq> 0"
    by (cases "documentId s") auto
  show ?thesis
  proof (cases "gen d (selectedTask s)
                  (if selectedTask s = Math_proof then Some (outputFormat s) else None)")
    case (Inl e)
    with d show ?thesis
      by (simp add: handleGenerate_landing_def Let_def split del: if_split cong: if_cong)
  next
    case (Inr res)
    with d show ?thesis
      by (cases "truthy (documentTitle s)")
         (simp_all add: handleGenerate_landing_def Let_def loadRelated_def
          split del: if_split split: sum.split cong: if_cong)
  qed
qed

lemma loadRelated_failure_related:
  "isl (fetchRelated q) \<Longrightarrow> related (loadRelated fetchRelated q s) = related s"
  by (cases "fetchRelated q") (simp_all add: loadRelated_def Let_def)

lemma upload_failure_related:
  "(\<And>q. isl (fetchRelated q)) \<Longrightarrow> related (upload uploadDoc fetchRelated s) = related s"
  by (simp add: upload_def Let_def loadRelated_failure_related split: option.split sum.split)

lemma handleGenerate_landing_failure_related:
  assumes "\<And>q. isl (fetchRelated q)"
  shows "related (handleGenerate_landing gen fetchRelated s) = related s"
proof -
  have "related ((handleGenerate_landing gen fetchRelated s)\<lparr>relatedLoading := l, console_errors := c\<rparr>)
      = related ((handleGenerate_landing gen (\<lambda>q. Inl NonError) s)\<lparr>relatedLoading := l, console_errors := c\<rparr>)"
    for l c
  proof (cases "documentId s = None \<or> documentId s = Some 0")
    case True
    then show ?thesis by (auto simp: handleGenerate_landing_def)
  next
    case False
    then obtain d where d: "documentId s = Some d" "d \<noteq> 0"
      by (cases "documentId s") auto
    show ?thesis
    proof (cases "gen d (selectedTask s)
                    (if selectedTask s = Math_proof then Some (outputFormat s) else None)")
      case (Inl e)
      with d show ?thesis
        by (simp add: handleGenerate_landing_def Let_def split del: if_split cong: if_cong)
    next
      case (Inr res)
      with d show ?thesis
        using assms [of "documentTitle s"]
        by (cases "fetchRelated (documentTitle s)"; cases "truthy (documentTitle s)")
           (simp_all add: handleGenerate_landing_def Let_def loadRelated_def split del: if_split cong: if_cong)
    qed
  qed
  moreover have "related (handleGenerate_landing gen (\<lambda>q. Inl NonError) s) = related s"
    by (simp add: handleGenerate_landing_def Let_def loadRelated_def split: sum.split option.split)
  ultimately show ?thesis by simp
qed

text \<open>
  C6, as amended. When the related-article search fails, on whatever query, the operation
  that started it does not fail: \<open>upload\<close> and \<open>handleGenerate\<close> end in the state they
  end in under any other behaviour of the search, apart from \<open>related\<close>,
  \<open>relatedLoading\<close> and the console log; no alert is raised by \<open>loadRelated\<close>; and the
  related articles are left as they were before the call: the page goes on showing the
  set it showed, which is empty when none had been loaded.
\<close>

theorem related_failure_contained:
  assumes "\<And>q. isl (fetchRelated q)"
  shows "related (loadRelated fetchRelated q s) = related s
       \<and> alerts (loadRelated fetchRelated q s) = alerts s
       \<and> related (upload uploadDoc fetchRelated s) = related s
       \<and> related (handleGenerate_landing gen fetchRelated s) = related s
       \<and> (upload uploadDoc fetchRelated s)\<lparr>related := r, relatedLoading := l, console_errors := c\<rparr>
           = (upload uploadDoc other s)\<lparr>related := r, relatedLoading := l, console_errors := c\<rparr>
       \<and> (handleGenerate_landing gen fetchRelated s)\<lparr>related := r, relatedLoading := l, console_errors := c\<rparr>
           = (handleGenerate_landing gen other s)\<lparr>related := r, relatedLoading := l, console_errors := c\<rparr>
       \<and> shown_articles (handleGenerate_landing gen fetchRelated s) = shown_articles s
       \<and> shown_articles (upload uploadDoc fetchRelated s) = shown_articles s"
proof (intro conjI)
  show "related (loadRelated fetchRelated q s) = related s"
    using assms by (rule loadRelated_failure_related)
  show "alerts (loadRelated fetchRelated q s) = alerts s"
    by (simp add: loadRelated_def Let_def split: sum.split)
  show u: "related (upload uploadDoc fetchRelated s) = related s"
    using assms by (rule upload_failure_related)
  show g: "related (handleGenerate_landing gen fetchRelated s) = related s"
    using assms by (rule handleGenerate_landing_failure_related)
  show "(upload uploadDoc fetchRelated s)\<lparr>related := r, relatedLoading := l, console_errors := c\<rparr>
           = (upload uploadDoc other s)\<lparr>related := r, relatedLoading := l, console_errors := c\<rparr>"
    by (rule upload_erase)
  show "(handleGenerate_landing gen fetchRelated s)\<lparr>related := r, relatedLoading := l, console_errors := c\<rparr>
           = (handleGenerate_landing gen other s)\<lparr>related := r, relatedLoading := l, console_errors := c\<rparr>"
    by (rule handleGenerate_landing_erase)
  show "shown_articles (handleGenerate_landing gen fetchRelated s) = shown_articles s"
    by (simp add: shown_articles_def g)
  show "shown_articles (upload uploadDoc fetchRelated s) = shown_articles s"
    by (simp add: shown_articles_def u)
qed

text \<open>
  C6 as stated fails: a document is uploaded while the search works, so one article is
  shown; then a summary is generated while the search answers 503. The generation
  succeeds, and the page still shows the article loaded before, not an empty set.
\<close>

theorem related_failure_keeps_stale_articles:
  "related_search_down (js ''Graphs'') = Inl (Error (js ''Related articles fetch failed''))
   \<and> resultText (handleGenerate_landing generate_succeeds related_search_down
         (upload upload_succeeds related_search_up initial_page)) = js ''A summary.''
   \<and> shown_articles (handleGenerate_landing generate_succeeds related_search_down
         (upload upload_succeeds related_search_up initial_page)) = [sample_article]"
  by (simp add: related_search_down_def fetchRelatedArticles_def apiRelated_def
      encode_unreserved_def server_answers_def related_unavailable_def related_search_up_def
      upload_succeeds_def generate_succeeds_def initial_page_def
      handleGenerate_landing_def upload_def loadRelated_def Let_def
      shown_articles_def truthy_def js_def)

text \<open>
  The amended C6 at a search that answers 503: on the freshly started page, the upload
  goes through and no article is shown.
\<close>

theorem related_failure_contained_witness:
  "isl (related_search_down (js ''Graphs''))
   \<and> related (upload upload_succeeds related_search_down initial_page) = None
   \<and> shown_articles (upload upload_succeeds related_search_down initial_page) = []
   \<and> related (handleGenerate_landing generate_succeeds related_search_down initial_page) = None"
proof -
  have down: "isl (related_search_down q)" for q
    by (simp add: related_search_down_def fetchRelatedArticles_def apiRelated_def
        encode_unreserved_def server_answers_def related_unavailable_def Let_def)
  show ?thesis
    using down [of "js ''Graphs''"]
      related_failure_contained [where fetchRelated = related_search_down
        and q = "js ''Graphs''" and s = initial_page and uploadDoc = upload_succeeds
        and gen = generate_succeeds and r = None and l = False and c = "[]"
        and other = related_search_up, OF down]
    by (simp add: initial_page_def shown_articles_def)
qed

section \<open>Properties of the prompt builder page\<close>

lemma cleanedTags_filter:
  "cleanedTags ts =
     filter (\<lambda>t. tag_name t \<noteq> [] \<and> tag_value t \<noteq> [])
       (map (\<lambda>t. \<lparr>tag_name = trim (tag_name t), tag_value = trim (tag_value t)\<rparr>) ts)"
proof -
  have "\<And>t::TagIn. truthy (js_and (tag_name t) (tag_value t)) \<longleftrightarrow> tag_name t \<noteq> [] \<and> tag_value t \<noteq> []"
    by (auto simp: js_and_def truthy_def)
  then show ?thesis by (simp add: cleanedTags_def)
qed

lemma cleanedTags_empty:
  "cleanedTags ts = [] \<longleftrightarrow>
     \<not> (\<exists>t \<in> set ts. trim (tag_name t) \<noteq> [] \<and> trim (tag_value t) \<noteq> [])"
  by (auto simp: cleanedTags_filter filter_empty_conv)

lemma handleGenerate_sent:
  "snd (handleGenerate api s) =
     (if cleanedTags (tags s) \<noteq> [] \<and> selectedPatternNames s \<noteq> []
      then [\<lparr>pbreq_tags = cleanedTags (tags s), pbreq_pattern_names = selectedPatternNames s\<rparr>]
      else [])"
  by (simp add: handleGenerate_def Let_def split: sum.split)

lemma handleGenerate_no_tags:
  "cleanedTags (tags s) = [] \<Longrightarrow>
   fst (handleGenerate api s) =
     s\<lparr>errorMessage := Some (js ''Please provide at least one tag with a name and value.''),
       result := None, promptText := []\<rparr>"
  by (simp add: handleGenerate_def Let_def)

lemma handleGenerate_no_patterns:
  "cleanedTags (tags s) \<noteq> [] \<Longrightarrow> selectedPatternNames s = [] \<Longrightarrow>
   fst (handleGenerate api s) =
     s\<lparr>errorMessage := Some (js ''Please select at least one prompt pattern.''),
       result := None, promptText := []\<rparr>"
  by (simp add: handleGenerate_def Let_def)

text \<open>
  C10. \<open>handleGenerate\<close> of the prompt builder page passes a payload to the API exactly
  when, after trimming, some tag row has a non-empty name and a non-empty value and some
  pattern is selected, and then it passes exactly one: the trimmed rows with both parts
  non-empty, in order, every other row dropped, with the selected patterns. When no row
  qualifies, or when a row does and no pattern is selected, nothing is sent and the
  error message is set, to the one or the other text.
\<close>

theorem handleGenerate_request_guard:
  "snd (handleGenerate api s) =
     (if (\<exists>t \<in> set (tags s). trim (tag_name t) \<noteq> [] \<and> trim (tag_value t) \<noteq> [])
         \<and> selectedPatternNames s \<noteq> []
      then [\<lparr>pbreq_tags =
               filter (\<lambda>t. tag_name t \<noteq> [] \<and> tag_value t \<noteq> [])
                 (map (\<lambda>t. \<lparr>tag_name = trim (tag_name t), tag_value = trim (tag_value t)\<rparr>)
                    (tags s)),
             pbreq_pattern_names = selectedPatternNames s\<rparr>]
      else [])
   \<and> (\<not> (\<exists>t \<in> set (tags s). trim (tag_name t) \<noteq> [] \<and> trim (tag_value t) \<noteq> []) \<longrightarrow>
        fst (handleGenerate api s) =
          s\<lparr>errorMessage := Some (js ''Please provide at least one tag with a name and value.''),
            result := None, promptText := []\<rparr>)
   \<and> ((\<exists>t \<in> set (tags s). trim (tag_name t) \<noteq> [] \<and> trim (tag_value t) \<noteq> [])
        \<and> selectedPatternNames s = [] \<longrightarrow>
        fst (handleGenerate api s) =
          s\<lparr>errorMessage := Some (js ''Please select at least one prompt pattern.''),
            result := None, promptText := []\<rparr>)"
proof (intro conjI impI)
  show "snd (handleGenerate api s) =
     (if (\<exists>t \<in> set (tags s). trim (tag_name t) \<noteq> [] \<and> trim (tag_value t) \<noteq> [])
         \<and> selectedPatternNames s \<noteq> []
      then [\<lparr>pbreq_tags =
               filter (\<lambda>t. tag_name t \<noteq> [] \<and> tag_value t \<noteq> [])
                 (map (\<lambda>t. \<lparr>tag_name = trim (tag_name t), tag_value = trim (tag_value t)\<rparr>)
                    (tags s)),
             pbreq_pattern_names = selectedPatternNames s\<rparr>]
      else [])"
    unfolding handleGenerate_sent cleanedTags_empty
    by (simp add: cleanedTags_filter)
next
  assume "\<not> (\<exists>t \<in> set (tags s). trim (tag_name t) \<noteq> [] \<and> trim (tag_value t) \<noteq> [])"
  then have "cleanedTags (tags s) = []" using cleanedTags_empty by blast
  then show "fst (handleGenerate api s) =
          s\<lparr>errorMessage := Some (js ''Please provide at least one tag with a name and value.''),
            result := None, promptText := []\<rparr>"
    by (rule handleGenerate_no_tags)
next
  assume a: "(\<exists>t \<in> set (tags s). trim (tag_name t) \<noteq> [] \<and> trim (tag_value t) \<noteq> [])
        \<and> selectedPatternNames s = []"
  then have "cleanedTags (tags s) \<noteq> []" using cleanedTags_empty by blast
  with a show "fst (handleGenerate api s) =
          s\<lparr>errorMessage := Some (js ''Please select at least one prompt pattern.''),
            result := None, promptText := []\<rparr>"
    by (simp add: handleGenerate_no_patterns)
qed

text \<open>
  C10 at three pages: two rows of which one has a blank value, with a pattern selected;
  the same rows emptied; and the same rows with no pattern selected.
\<close>

theorem handleGenerate_request_guard_witness:
  "snd (handleGenerate prompt_api_up filled_prompt_page) =
     [\<lparr>pbreq_tags = [\<lparr>tag_name = js ''topic'', tag_value = js ''graph theory''\<rparr>],
       pbreq_pattern_names = [js ''ReAct'']\<rparr>]
   \<and> snd (handleGenerate prompt_api_up (filled_prompt_page\<lparr>tags := []\<rparr>)) = []
   \<and> errorMessage (fst (handleGenerate prompt_api_up (filled_prompt_page\<lparr>tags := []\<rparr>)))
       = Some (js ''Please provide at least one tag with a name and value.'')
   \<and> snd (handleGenerate prompt_api_up (filled_prompt_page\<lparr>selectedPatternNames := []\<rparr>)) = []
   \<and> errorMessage (fst (handleGenerate prompt_api_up (filled_prompt_page\<lparr>selectedPatternNames := []\<rparr>)))
       = Some (js ''Please select at least one prompt pattern.'')"
  using
    handleGenerate_request_guard [of prompt_api_up filled_prompt_page]
    handleGenerate_request_guard [of prompt_api_up "filled_prompt_page\<lparr>tags := []\<rparr>"]
    handleGenerate_request_guard [of prompt_api_up "filled_prompt_page\<lparr>selectedPatternNames := []\<rparr>"]
  by (simp add: filled_prompt_page_def trim_def is_white_space_def js_def)

section \<open>Properties of the Prompt Composer\<close>

lemma map_of_permuted:
  assumes "distinct (map fst ts)" and "mset ts' = mset ts"
  shows "map_of ts' = map_of ts"
proof -
  have s: "set ts' = set ts" using assms(2) by (rule mset_eq_setD)
  have "mset (map fst ts') = mset (map fst ts)" using assms(2) by (metis mset_map)
  then have d: "distinct (map fst ts')" using assms(1) mset_eq_imp_distinct_iff by blast
  show ?thesis using map_of_inject_set [OF d assms(1)] s by simp
qed

lemma sort_permuted:
  fixes ts :: "('a::linorder) list"
  assumes "mset ts' = mset ts"
  shows "sort ts' = sort ts"
  by (rule properties_for_sort) (simp_all add: assms)

text \<open>
  C1. For tags with unique names, \<open>compose\<close> with the same patterns in the same order
  and the same tags supplied in another order gives the same outcome: the same rendered
  text and the same fingerprint when the input is valid, and the same error when it is
  not. Two calls on the same arguments agree because \<open>compose\<close> is a function.
\<close>

theorem compose_tag_order:
  assumes "distinct (map fst ts)" and "mset ts' = mset ts"
  shows "compose registry separator hash patterns ts'
           = compose registry separator hash patterns ts"
  unfolding compose_def map_of_permuted [OF assms] sort_permuted [OF assms(2)] ..

text \<open>C1 at two tags supplied in both orders to two patterns.\<close>

theorem compose_tag_order_witness:
  "compose sample_registry ''; '' identity_hash [''Fact Check List'', ''Template Pattern'']
       [(''audience'', ''students''), (''topic'', ''graphs'')]
     = compose sample_registry ''; '' identity_hash [''Fact Check List'', ''Template Pattern'']
         [(''topic'', ''graphs''), (''audience'', ''students'')]
   \<and> map_sum id cp_text
         (compose sample_registry ''; '' identity_hash [''Fact Check List'', ''Template Pattern'']
            [(''topic'', ''graphs''), (''audience'', ''students'')])
       = Inr ''List the facts on graphs for students; Write about graphs.''"
  using compose_tag_order [of "[(''topic'', ''graphs''), (''audience'', ''students'')]"
      "[(''audience'', ''students''), (''topic'', ''graphs'')]"
      sample_registry "''; ''" identity_hash "[''Fact Check List'', ''Template Pattern'']"]
  by (simp add: compose_def sample_registry_def get_pattern_def render_def)

section \<open>Properties of the Model Router\<close>

lemma attempt_always_transient:
  "(\<And>i. generate i p payload = Inl Transient) \<Longrightarrow>
   attempt generate p payload n calls = (calls @ replicate (Suc n) p, Inl Transient)"
proof (induction n arbitrary: calls)
  case 0
  then show ?case by simp
next
  case (Suc n)
  then show ?case by (simp add: replicate_append_same)
qed

lemma attempt_calls:
  "\<exists>m. fst (attempt generate q payload n calls) = calls @ replicate m q"
proof (induction n arbitrary: calls)
  case 0
  have "fst (attempt generate q payload 0 calls) = calls @ replicate 1 q" by simp
  then show ?case by blast
next
  case (Suc n)
  show ?case
  proof (cases "generate (length calls) q payload")
    case (Inl e)
    show ?thesis
    proof (cases e)
      case Transient
      obtain m where "fst (attempt generate q payload n (calls @ [q])) = (calls @ [q]) @ replicate m q"
        using Suc.IH by blast
      then have "fst (attempt generate q payload (Suc n) calls) = calls @ replicate (Suc m) q"
        using Inl Transient by simp
      then show ?thesis by blast
    next
      case Permanent
      then have "fst (attempt generate q payload (Suc n) calls) = calls @ replicate 1 q"
        using Inl by simp
      then show ?thesis by blast
    qed
  next
    case (Inr out)
    then have "fst (attempt generate q payload (Suc n) calls) = calls @ replicate 1 q" by simp
    then show ?thesis by blast
  qed
qed

text \<open>
  C5. With a retry bound of 2 and a primary profile that fails transiently on every
  attempt, \<open>dispatch\<close> calls the primary profile exactly 3 times: its first three calls
  are to the primary, and no later call is, the profile failed over to being another
  profile than the primary.
\<close>

theorem dispatch_primary_calls:
  assumes bound: "retry_bound cfg = 2"
    and transient: "\<And>i. generate i (primary_profile cfg taskType) payload = Inl Transient"
    and other: "failover_target cfg taskType \<noteq> Some (primary_profile cfg taskType)"
  shows "take 3 (fst (dispatch cfg generate taskType payload))
           = replicate 3 (primary_profile cfg taskType)
       \<and> primary_profile cfg taskType \<notin> set (drop 3 (fst (dispatch cfg generate taskType payload)))
       \<and> length (filter (\<lambda>p. p = primary_profile cfg taskType)
                   (fst (dispatch cfg generate taskType payload))) = 3"
proof -
  let ?p = "primary_profile cfg taskType"
  have first: "attempt generate ?p payload 2 [] = (replicate 3 ?p, Inl Transient)"
    using attempt_always_transient [of generate ?p payload 2 "[]"] transient
    by (simp add: numeral_2_eq_2 numeral_3_eq_3)
  have "\<exists>rest. ?p \<notin> set rest
          \<and> fst (dispatch cfg generate taskType payload) = replicate 3 ?p @ rest"
  proof (cases "failover_target cfg taskType")
    case None
    then have "fst (dispatch cfg generate taskType payload) = replicate 3 ?p @ []"
      by (simp add: dispatch_def Let_def bound first)
    then show ?thesis by fastforce
  next
    case (Some q)
    with other have ne: "q \<noteq> ?p" by simp
    obtain m where m: "fst (attempt generate q payload 2 (replicate 3 ?p)) = replicate 3 ?p @ replicate m q"
      using attempt_calls by blast
    have "fst (dispatch cfg generate taskType payload) = fst (attempt generate q payload 2 (replicate 3 ?p))"
      by (simp add: dispatch_def Let_def bound first Some split: prod.split sum.split)
    with m ne show ?thesis by auto
  qed
  then obtain rest where rest: "?p \<notin> set rest"
    and calls: "fst (dispatch cfg generate taskType payload) = replicate 3 ?p @ rest"
    by blast
  from rest have "filter (\<lambda>p. p = ?p) rest = []"
    by (auto simp: filter_empty_conv)
  with rest show ?thesis by (simp add: calls)
qed

text \<open>C5 at a primary that always times out and a backup of the same tier that answers.\<close>

theorem dispatch_primary_calls_witness:
  "dispatch sample_router primary_times_out Long_summary ''the document''
     = ([deep_profile, deep_profile, deep_profile, deep_backup_profile],
        Inr \<lparr>raw_text = ''A long summary.'', model_used = ''deepseek-backup'', size_estimate = 15\<rparr>)
   \<and> length (filter (\<lambda>p. p = deep_profile)
        (fst (dispatch sample_router primary_times_out Long_summary ''the document''))) = 3"
proof -
  have ne: "deep_backup_profile \<noteq> deep_profile"
    by (simp add: deep_backup_profile_def deep_profile_def)
  have d: "dispatch sample_router primary_times_out Long_summary ''the document''
     = ([deep_profile, deep_profile, deep_profile, deep_backup_profile],
        Inr \<lparr>raw_text = ''A long summary.'', model_used = ''deepseek-backup'', size_estimate = 15\<rparr>)"
    using ne
    by (simp add: dispatch_def sample_router_def primary_times_out_def failover_target_def
        output_of_def Let_def numeral_2_eq_2 deep_backup_profile_def)
  have "length (filter (\<lambda>p. p = deep_profile)
        (fst (dispatch sample_router primary_times_out Long_summary ''the document''))) = 3"
    using dispatch_primary_calls [of sample_router primary_times_out Long_summary "''the document''"] ne
    by (simp add: sample_router_def primary_times_out_def failover_target_def)
  with d show ?thesis by simp
qed

section \<open>Properties of the Job Lifecycle Manager\<close>

lemma transition_terminal: "terminal j \<Longrightarrow> transition j e = None"
  by (cases e) (auto simp: terminal_def)

lemma deliver_terminal: "terminal j \<Longrightarrow> deliver j e = j"
  by (simp add: deliver_def transition_terminal)

lemma lifecycle_terminal: "terminal j \<Longrightarrow> lifecycle j es = j"
  unfolding lifecycle_def by (induction es) (simp_all add: deliver_terminal)

lemma lifecycle_append: "lifecycle j (es @ es') = lifecycle (lifecycle j es) es'"
  by (simp add: lifecycle_def)

text \<open>
  C4. Once the events applied to a job have brought it to \<open>Completed\<close> or \<open>Failed\<close>,
  no event has a transition from there, and whatever events follow leave the job record
  exactly as it is.
\<close>

theorem terminal_is_final:
  assumes "terminal (lifecycle j es)"
  shows "transition (lifecycle j es) e = None
       \<and> lifecycle j (es @ es') = lifecycle j es"
  using assms by (simp add: transition_terminal lifecycle_append lifecycle_terminal)


text \<open>C4 at a job that completes and is then sent a late error and a second enqueue.\<close>

theorem terminal_is_final_witness:
  "job_state (lifecycle sample_job [Enqueue, Cache_miss 1, Succeeded sample_artifacts 2]) = Completed
   \<and> lifecycle sample_job
        ([Enqueue, Cache_miss 1, Succeeded sample_artifacts 2] @ [Errored GenerationPermanent ''late'' 3, Enqueue])
      = lifecycle sample_job [Enqueue, Cache_miss 1, Succeeded sample_artifacts 2]"
proof -
  have c: "job_state (lifecycle sample_job [Enqueue, Cache_miss 1, Succeeded sample_artifacts 2]) = Completed"
    by (simp add: lifecycle_def deliver_def sample_job_def)
  then have "terminal (lifecycle sample_job [Enqueue, Cache_miss 1, Succeeded sample_artifacts 2])"
    by (simp add: terminal_def)
  from terminal_is_final [OF this] c show ?thesis by simp
qed

section \<open>Properties of the Result Cache\<close>
















end
